theory Spec2Isabelle
  imports Main
begin

section \<open>The palette table of \<^verbatim>\<open>app.py\<close>\<close>

text \<open>
  \<^verbatim>\<open>COLOR_MAP\<close> is a dictionary literal from a college key to a dictionary with the
  four keys \<^verbatim>\<open>primary\<close>, \<^verbatim>\<open>secondary\<close>, \<^verbatim>\<open>accent\<close> and \<^verbatim>\<open>full_name\<close>. The inner
  dictionary is a record; the outer one is an association list in insertion order,
  because the reverse indices are built by iterating over \<^verbatim>\<open>COLOR_MAP.items()\<close> and a
  later entry overwrites an earlier one. The colours are kept in the casing of the source.
\<close>

record palette =
  primary :: string
  secondary :: string
  accent :: string
  full_name :: string

definition COLOR_MAP :: "(string \<times> palette) list" where
  "COLOR_MAP =
    [(''LACCD (District)'',
        \<lparr>primary = ''#005a95'', secondary = ''#00345f'', accent = ''#bb9e6d'',
         full_name = ''Los Angeles Community College District''\<rparr>),
     (''ELAC (East LA)'',
        \<lparr>primary = ''#447D29'', secondary = ''#33511D'', accent = ''#FDB913'',
         full_name = ''East Los Angeles College''\<rparr>),
     (''LACC (LA City)'',
        \<lparr>primary = ''#C13C40'', secondary = ''#305589'', accent = ''#112844'',
         full_name = ''Los Angeles City College''\<rparr>),
     (''LAHC (LA Harbor)'',
        \<lparr>primary = ''#5F7FE2'', secondary = ''#002663'', accent = ''#FFC72C'',
         full_name = ''Los Angeles Harbor College''\<rparr>),
     (''LAMC (LA Mission)'',
        \<lparr>primary = ''#004590'', secondary = ''#FF611A'', accent = ''#718089'',
         full_name = ''Los Angeles Mission College''\<rparr>),
     (''LAPC (LA Pierce)'',
        \<lparr>primary = ''#BF2116'', secondary = ''#1F1F1F'', accent = ''#FFFFFF'',
         full_name = ''Los Angeles Pierce College''\<rparr>),
     (''LASC (LA Southwest)'',
        \<lparr>primary = ''#C5B358'', secondary = ''#000000'', accent = ''#FFFFFF'',
         full_name = ''Los Angeles Southwest College''\<rparr>),
     (''LATTC (LA Trade-Tech)'',
        \<lparr>primary = ''#562c82'', secondary = ''#1c1c1c'', accent = ''#aea4eb'',
         full_name = ''Los Angeles Trade-Technical College''\<rparr>),
     (''LAVC (LA Valley)'',
        \<lparr>primary = ''#00593F'', secondary = ''#FFC72C'', accent = ''#FFFFFF'',
         full_name = ''Los Angeles Valley College''\<rparr>),
     (''WLAC (West LA)'',
        \<lparr>primary = ''#4169E1'', secondary = ''#003594'', accent = ''#FFD700'',
         full_name = ''West Los Angeles College''\<rparr>)]"

section \<open>Strings\<close>

text \<open>
  \<^verbatim>\<open>str.lower()\<close> is only ever applied to a matched token (a \<^verbatim>\<open>#\<close> and six hex digits)
  and to the colours of the table, all of them ASCII; on ASCII it maps \<^verbatim>\<open>A\<close>..\<^verbatim>\<open>Z\<close> to
  \<^verbatim>\<open>a\<close>..\<^verbatim>\<open>z\<close> and nothing else.
\<close>

definition lower_char :: "char \<Rightarrow> char" where
  "lower_char c =
     (case map_of (zip ''ABCDEFGHIJKLMNOPQRSTUVWXYZ'' ''abcdefghijklmnopqrstuvwxyz'') c of
        Some d \<Rightarrow> d
      | None \<Rightarrow> c)"

definition lower :: "string \<Rightarrow> string" where
  "lower s = map lower_char s"

section \<open>The reverse indices\<close>

text \<open>
  \<^verbatim>\<open>{v[role].lower(): k for k, v in COLOR_MAP.items()}\<close>: the comprehension stores the
  entries in table order, so the last college with a colour in a role keeps the key.
\<close>

definition index_by :: "(palette \<Rightarrow> string) \<Rightarrow> (string \<times> palette) list \<Rightarrow> (string \<rightharpoonup> string)" where
  "index_by role items = fold (\<lambda>(k, v) m. m(lower (role v) \<mapsto> k)) items Map.empty"

definition build_color_maps ::
  "(string \<rightharpoonup> string) \<times> (string \<rightharpoonup> string) \<times> (string \<rightharpoonup> string)" where
  "build_color_maps =
     (index_by primary COLOR_MAP, index_by secondary COLOR_MAP, index_by accent COLOR_MAP)"

definition ALL_PRIMARIES :: "string \<rightharpoonup> string" where
  "ALL_PRIMARIES = fst build_color_maps"

definition ALL_SECONDARIES :: "string \<rightharpoonup> string" where
  "ALL_SECONDARIES = fst (snd build_color_maps)"

definition ALL_ACCENTS :: "string \<rightharpoonup> string" where
  "ALL_ACCENTS = snd (snd build_color_maps)"

section \<open>The pattern and \<^verbatim>\<open>re.sub\<close>\<close>

text \<open>
  \<^verbatim>\<open>hex_pattern = r'#[0-9a-fA-F]{6}'\<close>, used with \<^verbatim>\<open>re.IGNORECASE\<close>. \<open>hex_match s\<close> says
  that the pattern matches at the start of \<open>s\<close>; the match is then the first seven
  characters.
\<close>

definition is_hex :: "char \<Rightarrow> bool" where
  "is_hex c = (c \<in> set ''0123456789abcdefABCDEF'')"

definition hex_match :: "string \<Rightarrow> bool" where
  "hex_match s =
     (case s of
        [] \<Rightarrow> False
      | c # cs \<Rightarrow> c = CHR ''#'' \<and> 6 \<le> length cs \<and> list_all is_hex (take 6 cs))"

text \<open>
  \<^verbatim>\<open>re.sub(hex_pattern, repl, text)\<close> with a function \<open>repl\<close>: the text is scanned from the
  left, every leftmost match that does not overlap an earlier one is handed to \<open>repl\<close>
  and replaced by what it returns, and all other characters are copied. \<open>repl\<close> is a
  closure that also appends to the list \<^verbatim>\<open>changes\<close>; that list is the state \<open>st\<close>
  threaded through the calls in scan order.
\<close>

fun re_sub :: "(string \<Rightarrow> 's \<Rightarrow> string \<times> 's) \<Rightarrow> string \<Rightarrow> 's \<Rightarrow> string \<times> 's" where
  "re_sub repl [] st = ([], st)"
| "re_sub repl (c # cs) st =
     (if hex_match (c # cs) then
        (case repl (c # take 6 cs) st of
           (out, st') \<Rightarrow>
             (case re_sub repl (drop 6 cs) st' of
                (rest, st'') \<Rightarrow> (out @ rest, st'')))
      else
        (case re_sub repl cs st of
           (rest, st') \<Rightarrow> (c # rest, st')))"

section \<open>\<^verbatim>\<open>replace_colors\<close>\<close>

datatype error = KeyError string

text \<open>
  The inner function \<^verbatim>\<open>replace_color(match)\<close>. \<open>m\<close> is \<^verbatim>\<open>match.group(0)\<close>; the variables
  it closes over (\<^verbatim>\<open>target_colors\<close>, \<^verbatim>\<open>target_college\<close>, \<^verbatim>\<open>replace_all\<close>) are parameters,
  and the list \<^verbatim>\<open>changes\<close> it appends to is passed in and returned.
\<close>

definition replace_color ::
  "palette \<Rightarrow> string \<Rightarrow> bool \<Rightarrow> string \<Rightarrow> string list \<Rightarrow> string \<times> string list" where
  "replace_color target_colors target_college replace_all m changes =
     (let color = lower m in
      if color = lower (primary target_colors) then (m, changes)
      else if color = lower (secondary target_colors) then (m, changes)
      else if color = lower (accent target_colors) then (m, changes)
      else if replace_all then
        (primary target_colors,
         changes @ [''Color: '' @ color @ '' -> '' @ primary target_colors])
      else
        (case ALL_PRIMARIES color of
           Some source_college \<Rightarrow>
             if source_college \<noteq> target_college then
               (primary target_colors,
                changes @ [''Primary: '' @ color @ '' ('' @ source_college @ '') -> ''
                             @ primary target_colors])
             else (m, changes)
         | None \<Rightarrow>
             (case ALL_SECONDARIES color of
                Some source_college \<Rightarrow>
                  if source_college \<noteq> target_college then
                    (secondary target_colors,
                     changes @ [''Secondary: '' @ color @ '' ('' @ source_college @ '') -> ''
                                  @ secondary target_colors])
                  else (m, changes)
              | None \<Rightarrow>
                  (case ALL_ACCENTS color of
                     Some source_college \<Rightarrow>
                       if source_college \<noteq> target_college then
                         (accent target_colors,
                          changes @ [''Accent: '' @ color @ '' ('' @ source_college @ '') -> ''
                                       @ accent target_colors])
                       else (m, changes)
                   | None \<Rightarrow> (m, changes)))))"

text \<open>
  \<^verbatim>\<open>replace_colors(html_content, target_college, replace_all)\<close>. An empty text returns
  before the table is read; otherwise \<^verbatim>\<open>COLOR_MAP[target_college]\<close> raises \<^verbatim>\<open>KeyError\<close>
  for a key that is not in the table.
\<close>

definition replace_colors :: "string \<Rightarrow> string \<Rightarrow> bool \<Rightarrow> error + (string \<times> string list)" where
  "replace_colors html_content target_college replace_all =
     (if html_content = [] then Inr (html_content, [])
      else
        (case map_of COLOR_MAP target_college of
           None \<Rightarrow> Inl (KeyError target_college)
         | Some target_colors \<Rightarrow>
             Inr (re_sub (replace_color target_colors target_college replace_all)
                    html_content [])))"

section \<open>Notions used to state the properties\<close>

text \<open>
  A hex colour token is a string of seven characters that the pattern matches: what
  \<^verbatim>\<open>match.group(0)\<close> can be.
\<close>

definition hex_token :: "string \<Rightarrow> bool" where
  "hex_token m = (hex_match m \<and> length m = 7)"

text \<open>
  The three tests at the head of \<^verbatim>\<open>replace_color\<close>: the lowercased token equals the
  lowercased primary, secondary or accent colour of the target.
\<close>

definition own_color :: "palette \<Rightarrow> string \<Rightarrow> bool" where
  "own_color tc m =
     (lower m = lower (primary tc) \<or> lower m = lower (secondary tc) \<or> lower m = lower (accent tc))"

text \<open>
  The token occurrences of a text, in scan order: the matches that \<^verbatim>\<open>re.sub\<close> hands to
  the replacement function (what \<^verbatim>\<open>re.findall(hex_pattern, text, re.IGNORECASE)\<close>
  returns).
\<close>

fun findall :: "string \<Rightarrow> string list" where
  "findall [] = []"
| "findall (c # cs) =
     (if hex_match (c # cs) then (c # take 6 cs) # findall (drop 6 cs) else findall cs)"

text \<open>
  The roles, the colour a palette has in a role, and the tag a change record carries
  for it. \<open>lookup_role\<close> is the order in which the \<^verbatim>\<open>if\<close>/\<^verbatim>\<open>elif\<close> chain of
  \<^verbatim>\<open>replace_color\<close> consults the three indices, as a function of the lowercased colour;
  \<open>change_record\<close> is the f-string the three branches append.
\<close>

datatype role = Primary | Secondary | Accent






text \<open>
  What one call of \<^verbatim>\<open>replace_color\<close> returns and what it appends, and the text that
  \<^verbatim>\<open>re.sub\<close> builds from a replacement function without state. They are used to reason
  about \<open>re_sub\<close>; \<open>re_sub_pure\<close> below relates them to it.
\<close>

definition repl_text :: "palette \<Rightarrow> string \<Rightarrow> bool \<Rightarrow> string \<Rightarrow> string" where
  "repl_text tc target ra m = fst (replace_color tc target ra m [])"

definition repl_log :: "palette \<Rightarrow> string \<Rightarrow> bool \<Rightarrow> string \<Rightarrow> string list" where
  "repl_log tc target ra m = snd (replace_color tc target ra m [])"

fun sub_text :: "(string \<Rightarrow> string) \<Rightarrow> string \<Rightarrow> string" where
  "sub_text g [] = []"
| "sub_text g (c # cs) =
     (if hex_match (c # cs) then g (c # take 6 cs) @ sub_text g (drop 6 cs)
      else c # sub_text g cs)"

section \<open>The table and its indices\<close>

lemma fold_upd_map_of:
  "fold (\<lambda>(k, v) m. m(f v \<mapsto> k)) items m0 = m0 ++ map_of (rev (map (\<lambda>(k, v). (f v, k)) items))"
proof (induction items arbitrary: m0)
  case Nil
  show ?case by simp
next
  case (Cons kv items)
  obtain k v where kv: "kv = (k, v)" by (cases kv)
  have "fold (\<lambda>(k, v) m. m(f v \<mapsto> k)) (kv # items) m0 =
        fold (\<lambda>(k, v) m. m(f v \<mapsto> k)) items (m0(f v \<mapsto> k))"
    unfolding kv by simp
  also have "\<dots> = m0(f v \<mapsto> k) ++ map_of (rev (map (\<lambda>(k, v). (f v, k)) items))"
    by (rule Cons.IH)
  also have "\<dots> = m0 ++ map_of (rev (map (\<lambda>(k, v). (f v, k)) (kv # items)))"
    unfolding kv by (rule ext) (simp add: map_add_def split: option.splits)
  finally show ?case .
qed

lemma index_by_map_of:
  "index_by role items = map_of (rev (map (\<lambda>(k, v). (lower (role v), k)) items))"
  by (simp add: index_by_def fold_upd_map_of)

lemma COLOR_MAP_distinct: "distinct (map fst COLOR_MAP)"
  by (simp add: COLOR_MAP_def)

lemma index_by_sound:
  assumes "index_by role items c = Some k"
  shows "\<exists>v. (k, v) \<in> set items \<and> lower (role v) = c"
proof -
  from assms have "(c, k) \<in> set (rev (map (\<lambda>(k, v). (lower (role v), k)) items))"
    unfolding index_by_map_of by (rule map_of_SomeD)
  then show ?thesis by auto
qed

lemma index_sound:
  assumes "index_by role COLOR_MAP c = Some k"
  shows "\<exists>v. map_of COLOR_MAP k = Some v \<and> lower (role v) = c"
proof -
  from index_by_sound [OF assms] obtain v where "(k, v) \<in> set COLOR_MAP" "lower (role v) = c"
    by blast
  then show ?thesis using COLOR_MAP_distinct by (auto intro: map_of_is_SomeI)
qed

lemma palette_wf:
  assumes "map_of COLOR_MAP target = Some tc"
  shows "hex_token (primary tc) \<and> hex_token (secondary tc) \<and> hex_token (accent tc)"
proof -
  have "list_all (\<lambda>(k, v). hex_token (primary v) \<and> hex_token (secondary v) \<and> hex_token (accent v)) COLOR_MAP"
    by code_simp
  moreover from assms have "(target, tc) \<in> set COLOR_MAP" by (rule map_of_SomeD)
  ultimately show ?thesis by (auto simp: list_all_iff)
qed

section \<open>One call of \<^verbatim>\<open>replace_color\<close>\<close>

lemma replace_color_own:
  "own_color tc m \<Longrightarrow> replace_color tc target ra m ch = (m, ch)"
  by (auto simp: replace_color_def own_color_def Let_def)

lemma replace_color_all:
  "\<not> own_color tc m \<Longrightarrow>
   replace_color tc target True m ch =
     (primary tc, ch @ [''Color: '' @ lower m @ '' -> '' @ primary tc])"
  by (simp add: replace_color_def own_color_def Let_def)

lemma replace_color_unknown:
  "ALL_PRIMARIES (lower m) = None \<Longrightarrow> ALL_SECONDARIES (lower m) = None \<Longrightarrow>
   ALL_ACCENTS (lower m) = None \<Longrightarrow> replace_color tc target False m ch = (m, ch)"
  by (simp add: replace_color_def Let_def)

lemma replace_color_primary:
  "\<not> own_color tc m \<Longrightarrow> ALL_PRIMARIES (lower m) = Some j \<Longrightarrow> j \<noteq> target \<Longrightarrow>
   replace_color tc target False m ch =
     (primary tc, ch @ [''Primary: '' @ lower m @ '' ('' @ j @ '') -> '' @ primary tc])"
  by (simp add: replace_color_def own_color_def Let_def)

lemma replace_color_secondary:
  "\<not> own_color tc m \<Longrightarrow> ALL_PRIMARIES (lower m) = None \<Longrightarrow>
   ALL_SECONDARIES (lower m) = Some j \<Longrightarrow> j \<noteq> target \<Longrightarrow>
   replace_color tc target False m ch =
     (secondary tc, ch @ [''Secondary: '' @ lower m @ '' ('' @ j @ '') -> '' @ secondary tc])"
  by (simp add: replace_color_def own_color_def Let_def)

lemma replace_color_accent:
  "\<not> own_color tc m \<Longrightarrow> ALL_PRIMARIES (lower m) = None \<Longrightarrow>
   ALL_SECONDARIES (lower m) = None \<Longrightarrow> ALL_ACCENTS (lower m) = Some j \<Longrightarrow> j \<noteq> target \<Longrightarrow>
   replace_color tc target False m ch =
     (accent tc, ch @ [''Accent: '' @ lower m @ '' ('' @ j @ '') -> '' @ accent tc])"
  by (simp add: replace_color_def own_color_def Let_def)

lemma ALL_PRIMARIES_sound:
  "ALL_PRIMARIES c = Some k \<Longrightarrow> \<exists>v. map_of COLOR_MAP k = Some v \<and> lower (primary v) = c"
  by (simp add: ALL_PRIMARIES_def build_color_maps_def index_sound)

lemma ALL_SECONDARIES_sound:
  "ALL_SECONDARIES c = Some k \<Longrightarrow> \<exists>v. map_of COLOR_MAP k = Some v \<and> lower (secondary v) = c"
  by (simp add: ALL_SECONDARIES_def build_color_maps_def index_sound)

lemma ALL_ACCENTS_sound:
  "ALL_ACCENTS c = Some k \<Longrightarrow> \<exists>v. map_of COLOR_MAP k = Some v \<and> lower (accent v) = c"
  by (simp add: ALL_ACCENTS_def build_color_maps_def index_sound)

lemma foreign_source:
  assumes "map_of COLOR_MAP target = Some tc" and "\<not> own_color tc m"
  shows "ALL_PRIMARIES (lower m) \<noteq> Some target"
    and "ALL_SECONDARIES (lower m) \<noteq> Some target"
    and "ALL_ACCENTS (lower m) \<noteq> Some target"
  using assms ALL_PRIMARIES_sound [of "lower m" target]
    ALL_SECONDARIES_sound [of "lower m" target] ALL_ACCENTS_sound [of "lower m" target]
  by (auto simp: own_color_def)

lemma replace_color_split:
  "replace_color tc target ra m ch = (repl_text tc target ra m, ch @ repl_log tc target ra m)"
  by (simp add: replace_color_def repl_text_def repl_log_def Let_def split: option.splits)

lemma repl_shape:
  "(repl_text tc target ra m = m \<and> repl_log tc target ra m = []) \<or>
   (repl_text tc target ra m \<in> {primary tc, secondary tc, accent tc} \<and>
    lower (repl_text tc target ra m) \<noteq> lower m \<and> length (repl_log tc target ra m) = 1)"
  by (simp add: replace_color_def repl_text_def repl_log_def Let_def split: option.splits)

section \<open>The scan\<close>

lemma re_sub_pure:
  assumes "\<And>m st. f m st = (g m, st @ h m)"
  shows "re_sub f html st = (sub_text g html, st @ concat (map h (findall html)))"
  using assms
proof (induction f html st rule: re_sub.induct)
  case (1 repl st)
  show ?case by simp
next
  case (2 repl c cs st)
  note f = "2.prems"
  show ?case
  proof (cases "hex_match (c # cs)")
    case True
    have step: "repl (c # take 6 cs) st = (g (c # take 6 cs), st @ h (c # take 6 cs))"
      by (rule f)
    have "re_sub repl (drop 6 cs) (st @ h (c # take 6 cs)) =
          (sub_text g (drop 6 cs), (st @ h (c # take 6 cs)) @ concat (map h (findall (drop 6 cs))))"
      using True step [symmetric] f by (rule "2.IH"(1))
    then show ?thesis using True step by simp
  next
    case False
    have "re_sub repl cs st = (sub_text g cs, st @ concat (map h (findall cs)))"
      using False f by (rule "2.IH"(2))
    then show ?thesis using False by simp
  qed
qed

lemma replace_colors_pure:
  assumes "map_of COLOR_MAP target = Some tc"
  shows "replace_colors html target ra =
         Inr (sub_text (repl_text tc target ra) html,
              concat (map (repl_log tc target ra) (findall html)))"
proof (cases "html = []")
  case True
  then show ?thesis by (simp add: replace_colors_def)
next
  case False
  have "re_sub (replace_color tc target ra) html [] =
        (sub_text (repl_text tc target ra) html,
         [] @ concat (map (repl_log tc target ra) (findall html)))"
    by (rule re_sub_pure) (rule replace_color_split)
  then show ?thesis using False assms by (simp add: replace_colors_def)
qed

subsection \<open>Tokens\<close>

lemma hex_match_token: "hex_match (c # cs) \<Longrightarrow> hex_token (c # take 6 cs)"
  by (auto simp: hex_match_def hex_token_def)

lemma hex_token_length: "hex_token m \<Longrightarrow> length m = 7"
  by (simp add: hex_token_def)

lemma hex_token_append:
  assumes "hex_token m"
  shows "\<exists>c r. m = c # r \<and> length r = 6 \<and> hex_match (c # r @ s)"
proof -
  from assms obtain c r where m: "m = c # r" by (cases m) (auto simp: hex_token_def hex_match_def)
  with assms have "length r = 6" "hex_match (c # r)" by (auto simp: hex_token_def)
  then have "hex_match (c # r @ s)" by (auto simp: hex_match_def)
  with m \<open>length r = 6\<close> show ?thesis by blast
qed

lemma sub_text_token:
  assumes "hex_token m"
  shows "sub_text g (m @ s) = g m @ sub_text g s"
proof -
  from hex_token_append [OF assms, of s] obtain c r
    where "m = c # r" "length r = 6" "hex_match (c # r @ s)" by blast
  then show ?thesis by simp
qed

lemma findall_token:
  assumes "hex_token m"
  shows "findall (m @ s) = m # findall s"
proof -
  from hex_token_append [OF assms, of s] obtain c r
    where "m = c # r" "length r = 6" "hex_match (c # r @ s)" by blast
  then show ?thesis by simp
qed

lemma hex_token_is_hex: "hex_token m \<Longrightarrow> map is_hex m = False # replicate 6 True"
proof -
  assume a: "hex_token m"
  then obtain c r where m: "m = c # r" "length r = 6" "c = CHR ''#''" "list_all is_hex r"
    by (cases m) (auto simp: hex_token_def hex_match_def)
  have "map is_hex r = replicate (length r) True"
    using m(4) by (induction r) auto
  then show ?thesis using m by (simp add: is_hex_def)
qed

lemma hex_match_cong:
  assumes "map is_hex s = map is_hex s'"
  shows "hex_match (c # s) = hex_match (c # s')"
proof -
  from assms have l: "length s = length s'" by (rule map_eq_imp_length_eq)
  have "list_all is_hex (take 6 s) = list_all id (take 6 (map is_hex s))"
    by (simp add: list_all_iff take_map)
  also have "\<dots> = list_all is_hex (take 6 s')"
    by (simp add: assms list_all_iff take_map)
  finally show ?thesis using l by (simp add: hex_match_def)
qed

subsection \<open>Replacing twice, and texts that do not change\<close>

lemma own_color_target:
  "x \<in> {primary tc, secondary tc, accent tc} \<Longrightarrow> own_color tc x"
  by (auto simp: own_color_def)

lemma repl_text_own: "own_color tc m \<Longrightarrow> repl_text tc target ra m = m"
  by (simp add: repl_text_def replace_color_own)

lemma repl_log_own: "own_color tc m \<Longrightarrow> repl_log tc target ra m = []"
  by (simp add: repl_log_def replace_color_own)

lemma repl_text_token:
  assumes "map_of COLOR_MAP target = Some tc" and "hex_token m"
  shows "hex_token (repl_text tc target ra m)"
  using repl_shape [of tc target ra m] palette_wf [OF assms(1)] assms(2) by auto

lemma repl_idem:
  "repl_text tc target ra (repl_text tc target ra m) = repl_text tc target ra m \<and>
   repl_log tc target ra (repl_text tc target ra m) = []"
  using repl_shape [of tc target ra m]
  by (auto simp: repl_text_own repl_log_own own_color_target)

lemma repl_log_empty_iff:
  "(repl_log tc target ra m = []) = (repl_text tc target ra m = m)"
  using repl_shape [of tc target ra m] by auto

lemma repl_log_length:
  "length (repl_log tc target ra m) = (if repl_text tc target ra m \<noteq> m then 1 else 0)"
  using repl_shape [of tc target ra m] by auto

lemma log_count:
  "length (concat (map (repl_log tc target ra) ms)) =
   length (filter (\<lambda>m. repl_text tc target ra m \<noteq> m) ms)"
  by (induction ms) (simp_all add: repl_log_length)

lemma sub_text_is_hex:
  assumes reg: "map_of COLOR_MAP target = Some tc"
  shows "map is_hex (sub_text (repl_text tc target ra) s) = map is_hex s"
proof (induction "repl_text tc target ra" s rule: sub_text.induct)
  case 1
  show ?case by simp
next
  case (2 c cs)
  show ?case
  proof (cases "hex_match (c # cs)")
    case True
    let ?m = "c # take 6 cs"
    have tok: "hex_token ?m" using True by (rule hex_match_token)
    have "map is_hex (repl_text tc target ra ?m) = map is_hex ?m"
      using hex_token_is_hex [OF tok] hex_token_is_hex [OF repl_text_token [OF reg tok]]
      by simp
    moreover have "map is_hex (sub_text (repl_text tc target ra) (drop 6 cs)) = map is_hex (drop 6 cs)"
      using True by (rule "2.hyps"(1))
    moreover have "map is_hex (c # cs) = map is_hex ?m @ map is_hex (drop 6 cs)"
      by (simp add: take_map [symmetric] drop_map [symmetric])
    ultimately show ?thesis using True by simp
  next
    case False
    then show ?thesis using "2.hyps"(2) by simp
  qed
qed

lemma sub_text_idem:
  assumes reg: "map_of COLOR_MAP target = Some tc"
  shows "sub_text (repl_text tc target ra) (sub_text (repl_text tc target ra) s) =
           sub_text (repl_text tc target ra) s \<and>
         concat (map (repl_log tc target ra) (findall (sub_text (repl_text tc target ra) s))) = []"
proof (induction "repl_text tc target ra" s rule: sub_text.induct)
  case 1
  show ?case by simp
next
  case (2 c cs)
  let ?g = "repl_text tc target ra"
  show ?case
  proof (cases "hex_match (c # cs)")
    case True
    let ?m = "c # take 6 cs"
    have tok: "hex_token (?g ?m)"
      using reg hex_match_token [OF True] by (rule repl_text_token)
    have eq: "sub_text ?g (c # cs) = ?g ?m @ sub_text ?g (drop 6 cs)"
      using True by simp
    show ?thesis
      unfolding eq sub_text_token [OF tok] findall_token [OF tok]
      using "2.hyps"(1) [OF True] repl_idem [of tc target ra ?m] by simp
  next
    case False
    have "hex_match (c # sub_text ?g cs) = hex_match (c # cs)"
      by (rule hex_match_cong) (rule sub_text_is_hex [OF reg])
    then show ?thesis using False "2.hyps"(2) by simp
  qed
qed

lemma sub_text_unchanged_iff:
  assumes reg: "map_of COLOR_MAP target = Some tc"
  shows "(sub_text (repl_text tc target ra) s = s) =
         (concat (map (repl_log tc target ra) (findall s)) = [])"
proof (induction "repl_text tc target ra" s rule: sub_text.induct)
  case 1
  show ?case by simp
next
  case (2 c cs)
  let ?g = "repl_text tc target ra"
  show ?case
  proof (cases "hex_match (c # cs)")
    case True
    let ?m = "c # take 6 cs"
    have "length (?g ?m) = 7"
      using repl_text_token [OF reg hex_match_token [OF True]] by (rule hex_token_length)
    moreover have "length ?m = 7"
      using hex_match_token [OF True] by (rule hex_token_length)
    ultimately have len: "length (?g ?m) = length ?m" by (simp only:)
    have "(sub_text ?g (c # cs) = c # cs) =
          (?g ?m @ sub_text ?g (drop 6 cs) = ?m @ drop 6 cs)"
      using True by simp
    also have "\<dots> = (?g ?m = ?m \<and> sub_text ?g (drop 6 cs) = drop 6 cs)"
      by (rule append_eq_append_conv) (rule disjI1, rule len)
    also have "\<dots> = (repl_log tc target ra ?m = [] \<and>
                     concat (map (repl_log tc target ra) (findall (drop 6 cs))) = [])"
      using "2.hyps"(1) [OF True] by (simp add: repl_log_empty_iff)
    finally show ?thesis using True by simp
  next
    case False
    then show ?thesis using "2.hyps"(2) by simp
  qed
qed

subsection \<open>Letter case\<close>

lemma lower_char_hash: "(lower_char c = CHR ''#'') = (c = CHR ''#'')"
  by (simp add: lower_char_def)

lemma is_hex_lower_char: "is_hex (lower_char c) = is_hex c"
  by (simp add: lower_char_def is_hex_def)

lemma lower_char_eqD:
  assumes "lower_char c = lower_char d"
  shows "is_hex c = is_hex d" and "(c = CHR ''#'') = (d = CHR ''#'')"
  using assms is_hex_lower_char [of c] is_hex_lower_char [of d]
    lower_char_hash [of c] lower_char_hash [of d] by auto

lemma lower_is_hex: "lower s = lower t \<Longrightarrow> map is_hex s = map is_hex t"
proof (induction s arbitrary: t)
  case Nil
  then show ?case by (simp add: lower_def)
next
  case (Cons c s)
  then obtain d t' where t: "t = d # t'" by (cases t) (auto simp: lower_def)
  with Cons.prems have "lower_char c = lower_char d" "lower s = lower t'"
    by (auto simp: lower_def)
  then show ?case using Cons.IH [of t'] lower_char_eqD(1) [of c d] t by simp
qed

lemma lower_Cons: "lower (c # s) = lower_char c # lower s"
  by (simp add: lower_def)

lemma lower_append: "lower (s @ t) = lower s @ lower t"
  by (simp add: lower_def)

lemma lower_take: "lower (take n s) = take n (lower s)"
  by (simp add: lower_def take_map)

lemma lower_drop: "lower (drop n s) = drop n (lower s)"
  by (simp add: lower_def drop_map)

lemma hex_match_lower:
  assumes "lower (c # s) = lower (d # t)"
  shows "hex_match (c # s) = hex_match (d # t)"
proof -
  from assms have cd: "lower_char c = lower_char d" and st: "lower s = lower t"
    by (simp_all add: lower_Cons)
  have "hex_match (c # s) = hex_match (c # t)"
    using lower_is_hex [OF st] by (rule hex_match_cong)
  also have "\<dots> = hex_match (d # t)"
    using lower_char_eqD(2) [OF cd] by (simp add: hex_match_def)
  finally show ?thesis .
qed

lemma repl_log_lower:
  "lower m = lower m' \<Longrightarrow> repl_log tc target ra m = repl_log tc target ra m'"
  by (simp add: repl_log_def replace_color_def Let_def split: option.splits)

lemma repl_text_lower:
  assumes "lower m = lower m'"
  shows "(repl_text tc target ra m = m \<and> repl_text tc target ra m' = m') \<or>
         (repl_text tc target ra m = repl_text tc target ra m' \<and>
          repl_text tc target ra m \<in> {primary tc, secondary tc, accent tc})"
  using assms by (simp add: repl_text_def replace_color_def Let_def split: option.splits)

lemma sub_text_lower:
  assumes "lower s = lower t"
  shows "concat (map (repl_log tc target ra) (findall s)) =
           concat (map (repl_log tc target ra) (findall t)) \<and>
         lower (sub_text (repl_text tc target ra) s) = lower (sub_text (repl_text tc target ra) t)"
  using assms
proof (induction "repl_text tc target ra" s arbitrary: t rule: sub_text.induct)
  case 1
  then show ?case by (simp add: lower_def)
next
  case (2 c cs)
  let ?g = "repl_text tc target ra"
  from "2.prems" obtain d ds where t: "t = d # ds" by (cases t) (auto simp: lower_def)
  from "2.prems" t have cd: "lower_char c = lower_char d" and tl: "lower cs = lower ds"
    by (simp_all add: lower_Cons)
  have hm: "hex_match (d # ds) = hex_match (c # cs)"
    using "2.prems" t hex_match_lower [of c cs d ds] by simp
  show ?case
  proof (cases "hex_match (c # cs)")
    case True
    let ?m = "c # take 6 cs" and ?n = "d # take 6 ds"
    have mn: "lower ?m = lower ?n" using cd tl by (simp add: lower_Cons lower_take)
    have rest: "lower (drop 6 cs) = lower (drop 6 ds)" using tl by (simp add: lower_drop)
    have "lower (?g ?m) = lower (?g ?n)"
      using repl_text_lower [OF mn, of tc target ra] mn by auto
    moreover note "2.hyps"(1) [OF True rest] repl_log_lower [OF mn, of tc target ra]
    ultimately show ?thesis using True hm t by (simp add: lower_append)
  next
    case False
    then show ?thesis using "2.hyps"(2) [OF False tl] hm t cd by (simp add: lower_Cons)
  qed
qed

subsection \<open>A text that is one token\<close>

lemma replace_colors_token:
  assumes "map_of COLOR_MAP target = Some tc" and "hex_token m"
  shows "replace_colors m target ra = Inr (replace_color tc target ra m [])"
proof -
  have "sub_text (repl_text tc target ra) (m @ []) = repl_text tc target ra m @ []"
    using assms(2) by (simp only: sub_text_token sub_text.simps)
  moreover have "findall (m @ []) = [m]"
    using assms(2) by (simp only: findall_token findall.simps)
  ultimately show ?thesis
    using replace_colors_pure [OF assms(1), of m ra]
    by (simp add: repl_text_def repl_log_def)
qed

lemma repl_log_all:
  "repl_log tc target True m =
     (if own_color tc m then [] else [''Color: '' @ lower m @ '' -> '' @ primary tc])"
  by (simp add: repl_log_def replace_color_own replace_color_all)

lemma log_all:
  "concat (map (repl_log tc target True) ms) =
   map (\<lambda>m. ''Color: '' @ lower m @ '' -> '' @ primary tc) (filter (\<lambda>m. \<not> own_color tc m) ms)"
  by (induction ms) (simp_all add: repl_log_all)

section \<open>The properties\<close>

text \<open>
  In what follows \<open>replace_colors html target ra\<close> is \<^verbatim>\<open>rewrite(text, target, mode)\<close>:
  \<open>ra = False\<close> is the mode KnownOnly and \<open>ra = True\<close> the mode ReplaceAll. A target is
  registered when \<open>map_of COLOR_MAP target = Some tc\<close>, and \<open>tc\<close> is then its palette.
\<close>

subsection \<open>The empty text\<close>

text \<open>
  Claim C9. For the empty text, \<^verbatim>\<open>replace_colors\<close> returns the text and an empty change
  log whatever the target and the mode are: the table is not read, so a target that is
  not registered raises nothing.
\<close>

theorem empty_text_returns_early:
  "replace_colors [] target ra = Inr ([], [])"
  by (simp add: replace_colors_def)

subsection \<open>A target that is not registered\<close>

text \<open>
  Claim C5 says that every text with an unregistered target fails. The empty text does
  not: it is returned with an empty log before \<^verbatim>\<open>COLOR_MAP[target_college]\<close> is
  evaluated.
\<close>

theorem unknown_target_empty_text_counterexample:
  "map_of COLOR_MAP ''Nowhere'' = None \<and> replace_colors [] ''Nowhere'' False = Inr ([], [])"
  by (simp add: replace_colors_def COLOR_MAP_def)

text \<open>
  Claim C5, amended. For every text that is not empty and every mode, a target that is
  not a key of the table makes \<^verbatim>\<open>replace_colors\<close> raise \<^verbatim>\<open>KeyError\<close> for that target;
  nothing is returned.
\<close>

theorem unknown_target_raises:
  assumes "map_of COLOR_MAP target = None" and "html \<noteq> []"
  shows "replace_colors html target ra = Inl (KeyError target)"
  using assms by (simp add: replace_colors_def)

theorem unknown_target_raises_witness:
  "map_of COLOR_MAP ''Nowhere'' = None \<and> ''color: #BF2116'' \<noteq> [] \<and>
   replace_colors ''color: #BF2116'' ''Nowhere'' True = Inl (KeyError ''Nowhere'')"
proof -
  have a: "map_of COLOR_MAP ''Nowhere'' = None" by (simp add: COLOR_MAP_def)
  have b: "''color: #BF2116'' \<noteq> []" by simp
  from a b unknown_target_raises [OF a b, of True] show ?thesis by simp
qed

subsection \<open>The mode ReplaceAll\<close>

text \<open>
  Claim C3. In the mode ReplaceAll, a token whose lowercase form is none of the target's
  three colours (whether an index holds it or not) is replaced by the target's primary
  colour as the table stores it, and one record tagged \<^verbatim>\<open>Color\<close> is appended for it.
  This is stated for one call of \<^verbatim>\<open>replace_color\<close> with any list of earlier changes,
  for a text that is this one token, and for a whole text, whose change log has exactly
  one such record for each token occurrence that is not one of the target's colours, in
  scan order.
\<close>

theorem replace_all_uses_primary:
  assumes "map_of COLOR_MAP target = Some tc" and "hex_token m" and "\<not> own_color tc m"
  shows "replace_color tc target True m changes =
           (primary tc, changes @ [''Color: '' @ lower m @ '' -> '' @ primary tc]) \<and>
         replace_colors m target True =
           Inr (primary tc, [''Color: '' @ lower m @ '' -> '' @ primary tc]) \<and>
         (\<exists>out. replace_colors html target True =
            Inr (out, map (\<lambda>m. ''Color: '' @ lower m @ '' -> '' @ primary tc)
                        (filter (\<lambda>m. \<not> own_color tc m) (findall html))))"
  using assms replace_colors_pure [OF assms(1), of html True]
  by (simp add: replace_colors_token replace_color_all log_all)

theorem replace_all_uses_primary_witness:
  "map_of COLOR_MAP ''LAPC (LA Pierce)'' =
     Some \<lparr>primary = ''#BF2116'', secondary = ''#1F1F1F'', accent = ''#FFFFFF'',
           full_name = ''Los Angeles Pierce College''\<rparr> \<and>
   hex_token ''#12ab56'' \<and>
   \<not> own_color \<lparr>primary = ''#BF2116'', secondary = ''#1F1F1F'', accent = ''#FFFFFF'',
           full_name = ''Los Angeles Pierce College''\<rparr> ''#12ab56'' \<and>
   replace_colors ''#12ab56'' ''LAPC (LA Pierce)'' True =
     Inr (''#BF2116'', [''Color: #12ab56 -> #BF2116''])"
proof -
  let ?tc = "\<lparr>primary = ''#BF2116'', secondary = ''#1F1F1F'', accent = ''#FFFFFF'',
           full_name = ''Los Angeles Pierce College''\<rparr>"
  have reg: "map_of COLOR_MAP ''LAPC (LA Pierce)'' = Some ?tc" by code_simp
  have tok: "hex_token ''#12ab56''" by code_simp
  have new: "\<not> own_color ?tc ''#12ab56''" by code_simp
  have low: "lower ''#12ab56'' = ''#12ab56''" by code_simp
  from replace_all_uses_primary [OF reg tok new] reg tok new low show ?thesis by simp
qed

subsection \<open>The target's own colours\<close>

text \<open>
  Claim C2. For a registered target and a token whose lowercase form equals the lowercase
  form of the target's primary, secondary or accent colour, \<^verbatim>\<open>replace_color\<close> returns the
  token as it was matched and appends nothing, in both modes; a text that is this one
  token is returned with an empty log. In particular each of the three colours of a
  registered college, as the table stores it, is returned unchanged with an empty log in
  the mode KnownOnly.
\<close>

theorem own_colors_untouched:
  assumes "map_of COLOR_MAP target = Some tc"
  shows "(hex_token m \<and> own_color tc m \<longrightarrow>
            replace_color tc target ra m changes = (m, changes) \<and>
            replace_colors m target ra = Inr (m, [])) \<and>
         replace_colors (primary tc) target False = Inr (primary tc, []) \<and>
         replace_colors (secondary tc) target False = Inr (secondary tc, []) \<and>
         replace_colors (accent tc) target False = Inr (accent tc, [])"
  using palette_wf [OF assms]
  by (simp add: replace_colors_token [OF assms] replace_color_own own_color_def)

theorem own_colors_untouched_witness:
  "map_of COLOR_MAP ''LAPC (LA Pierce)'' =
     Some \<lparr>primary = ''#BF2116'', secondary = ''#1F1F1F'', accent = ''#FFFFFF'',
           full_name = ''Los Angeles Pierce College''\<rparr> \<and>
   hex_token ''#bf2116'' \<and>
   own_color \<lparr>primary = ''#BF2116'', secondary = ''#1F1F1F'', accent = ''#FFFFFF'',
           full_name = ''Los Angeles Pierce College''\<rparr> ''#bf2116'' \<and>
   replace_colors ''#bf2116'' ''LAPC (LA Pierce)'' True = Inr (''#bf2116'', []) \<and>
   replace_colors ''#bf2116'' ''LAPC (LA Pierce)'' False = Inr (''#bf2116'', []) \<and>
   replace_colors ''#BF2116'' ''LAPC (LA Pierce)'' False = Inr (''#BF2116'', []) \<and>
   replace_colors ''#1F1F1F'' ''LAPC (LA Pierce)'' False = Inr (''#1F1F1F'', []) \<and>
   replace_colors ''#FFFFFF'' ''LAPC (LA Pierce)'' False = Inr (''#FFFFFF'', [])"
proof -
  let ?tc = "\<lparr>primary = ''#BF2116'', secondary = ''#1F1F1F'', accent = ''#FFFFFF'',
           full_name = ''Los Angeles Pierce College''\<rparr>"
  have reg: "map_of COLOR_MAP ''LAPC (LA Pierce)'' = Some ?tc" by code_simp
  have tok: "hex_token ''#bf2116''" by code_simp
  have own: "own_color ?tc ''#bf2116''" by code_simp
  from own_colors_untouched [OF reg, of "''#bf2116''" True]
    own_colors_untouched [OF reg, of "''#bf2116''" False] reg tok own
  show ?thesis by simp
qed

subsection \<open>Colours the indices do not hold\<close>

text \<open>
  Claim C4. In the mode KnownOnly, a token whose lowercase form is a key of none of the
  three indices is returned exactly as it was matched, and nothing is appended to the
  change log.
\<close>

theorem unknown_color_untouched:
  assumes "map_of COLOR_MAP target = Some tc" and "hex_token m"
    and "ALL_PRIMARIES (lower m) = None" and "ALL_SECONDARIES (lower m) = None"
    and "ALL_ACCENTS (lower m) = None"
  shows "replace_color tc target False m changes = (m, changes) \<and>
         replace_colors m target False = Inr (m, [])"
  using assms by (simp add: replace_colors_token replace_color_unknown)

theorem unknown_color_untouched_witness:
  "map_of COLOR_MAP ''LAPC (LA Pierce)'' =
     Some \<lparr>primary = ''#BF2116'', secondary = ''#1F1F1F'', accent = ''#FFFFFF'',
           full_name = ''Los Angeles Pierce College''\<rparr> \<and>
   hex_token ''#12aB56'' \<and>
   ALL_PRIMARIES (lower ''#12aB56'') = None \<and>
   ALL_SECONDARIES (lower ''#12aB56'') = None \<and>
   ALL_ACCENTS (lower ''#12aB56'') = None \<and>
   replace_colors ''#12aB56'' ''LAPC (LA Pierce)'' False = Inr (''#12aB56'', [])"
proof -
  let ?tc = "\<lparr>primary = ''#BF2116'', secondary = ''#1F1F1F'', accent = ''#FFFFFF'',
           full_name = ''Los Angeles Pierce College''\<rparr>"
  have reg: "map_of COLOR_MAP ''LAPC (LA Pierce)'' = Some ?tc" by code_simp
  have tok: "hex_token ''#12aB56''" by code_simp
  have p: "ALL_PRIMARIES (lower ''#12aB56'') = None" by code_simp
  have s: "ALL_SECONDARIES (lower ''#12aB56'') = None" by code_simp
  have a: "ALL_ACCENTS (lower ''#12aB56'') = None" by code_simp
  from unknown_color_untouched [OF reg tok p s a] reg tok p s a show ?thesis by simp
qed

subsection \<open>Colours of another college, mode KnownOnly\<close>





subsection \<open>The order of the indices\<close>

text \<open>
  Claim C7. In the mode KnownOnly the indices are consulted in the order primary,
  secondary, accent, and the first that holds the lowercase colour decides: a colour in
  the primary index is replaced by the target's primary colour with a record tagged
  \<^verbatim>\<open>Primary\<close>, whatever the other indices hold; a colour not in the primary index but in
  the secondary one gets the secondary colour and the tag \<^verbatim>\<open>Secondary\<close>, whatever the
  accent index holds; only a colour in neither gets the accent colour.
\<close>

theorem first_index_wins:
  assumes "map_of COLOR_MAP target = Some tc" and "hex_token m" and "\<not> own_color tc m"
  shows "(ALL_PRIMARIES (lower m) = Some j \<longrightarrow>
            replace_color tc target False m changes =
              (primary tc,
               changes @ [''Primary: '' @ lower m @ '' ('' @ j @ '') -> '' @ primary tc])) \<and>
         (ALL_PRIMARIES (lower m) = None \<and> ALL_SECONDARIES (lower m) = Some j \<longrightarrow>
            replace_color tc target False m changes =
              (secondary tc,
               changes @ [''Secondary: '' @ lower m @ '' ('' @ j @ '') -> '' @ secondary tc])) \<and>
         (ALL_PRIMARIES (lower m) = None \<and> ALL_SECONDARIES (lower m) = None \<and>
          ALL_ACCENTS (lower m) = Some j \<longrightarrow>
            replace_color tc target False m changes =
              (accent tc,
               changes @ [''Accent: '' @ lower m @ '' ('' @ j @ '') -> '' @ accent tc]))"
  using foreign_source [OF assms(1,3)] assms(3)
  by (auto simp: replace_color_primary replace_color_secondary replace_color_accent)

theorem first_index_wins_witness:
  "map_of COLOR_MAP ''LACCD (District)'' =
     Some \<lparr>primary = ''#005a95'', secondary = ''#00345f'', accent = ''#bb9e6d'',
           full_name = ''Los Angeles Community College District''\<rparr> \<and>
   hex_token ''#FFC72C'' \<and>
   \<not> own_color \<lparr>primary = ''#005a95'', secondary = ''#00345f'', accent = ''#bb9e6d'',
           full_name = ''Los Angeles Community College District''\<rparr> ''#FFC72C'' \<and>
   ALL_PRIMARIES (lower ''#FFC72C'') = None \<and>
   ALL_SECONDARIES (lower ''#FFC72C'') = Some ''LAVC (LA Valley)'' \<and>
   ALL_ACCENTS (lower ''#FFC72C'') = Some ''LAHC (LA Harbor)'' \<and>
   replace_color \<lparr>primary = ''#005a95'', secondary = ''#00345f'', accent = ''#bb9e6d'',
           full_name = ''Los Angeles Community College District''\<rparr>
       ''LACCD (District)'' False ''#FFC72C'' [] =
     (''#00345f'', [''Secondary: #ffc72c (LAVC (LA Valley)) -> #00345f'']) \<and>
   hex_token ''#bf2116'' \<and>
   \<not> own_color \<lparr>primary = ''#005a95'', secondary = ''#00345f'', accent = ''#bb9e6d'',
           full_name = ''Los Angeles Community College District''\<rparr> ''#bf2116'' \<and>
   ALL_PRIMARIES (lower ''#bf2116'') = Some ''LAPC (LA Pierce)'' \<and>
   replace_color \<lparr>primary = ''#005a95'', secondary = ''#00345f'', accent = ''#bb9e6d'',
           full_name = ''Los Angeles Community College District''\<rparr>
       ''LACCD (District)'' False ''#bf2116'' [] =
     (''#005a95'', [''Primary: #bf2116 (LAPC (LA Pierce)) -> #005a95'']) \<and>
   hex_token ''#ffffff'' \<and>
   \<not> own_color \<lparr>primary = ''#005a95'', secondary = ''#00345f'', accent = ''#bb9e6d'',
           full_name = ''Los Angeles Community College District''\<rparr> ''#ffffff'' \<and>
   ALL_PRIMARIES (lower ''#ffffff'') = None \<and>
   ALL_SECONDARIES (lower ''#ffffff'') = None \<and>
   ALL_ACCENTS (lower ''#ffffff'') = Some ''LAVC (LA Valley)'' \<and>
   replace_color \<lparr>primary = ''#005a95'', secondary = ''#00345f'', accent = ''#bb9e6d'',
           full_name = ''Los Angeles Community College District''\<rparr>
       ''LACCD (District)'' False ''#ffffff'' [] =
     (''#bb9e6d'', [''Accent: #ffffff (LAVC (LA Valley)) -> #bb9e6d''])"
proof -
  let ?tc = "\<lparr>primary = ''#005a95'', secondary = ''#00345f'', accent = ''#bb9e6d'',
           full_name = ''Los Angeles Community College District''\<rparr>"
  have reg: "map_of COLOR_MAP ''LACCD (District)'' = Some ?tc" by code_simp
  have tok: "hex_token ''#FFC72C''" "hex_token ''#bf2116''" "hex_token ''#ffffff''"
    by code_simp+
  have new: "\<not> own_color ?tc ''#FFC72C''" "\<not> own_color ?tc ''#bf2116''"
    "\<not> own_color ?tc ''#ffffff''"
    by code_simp+
  have low: "lower ''#FFC72C'' = ''#ffc72c''" "lower ''#bf2116'' = ''#bf2116''"
    "lower ''#ffffff'' = ''#ffffff''"
    by code_simp+
  have ix: "ALL_PRIMARIES ''#ffc72c'' = None"
    "ALL_SECONDARIES ''#ffc72c'' = Some ''LAVC (LA Valley)''"
    "ALL_ACCENTS ''#ffc72c'' = Some ''LAHC (LA Harbor)''"
    "ALL_PRIMARIES ''#bf2116'' = Some ''LAPC (LA Pierce)''"
    "ALL_PRIMARIES ''#ffffff'' = None"
    "ALL_SECONDARIES ''#ffffff'' = None"
    "ALL_ACCENTS ''#ffffff'' = Some ''LAVC (LA Valley)''"
    by code_simp+
  from first_index_wins [OF reg tok(1) new(1), of "''LAVC (LA Valley)''" "[]"]
    first_index_wins [OF reg tok(2) new(2), of "''LAPC (LA Pierce)''" "[]"]
    first_index_wins [OF reg tok(3) new(3), of "''LAVC (LA Valley)''" "[]"]
    reg tok new
  show ?thesis by (simp add: low ix)
qed

subsection \<open>Rewriting twice\<close>

text \<open>
  Claim C6. In the mode KnownOnly, for every text and every registered target,
  \<^verbatim>\<open>replace_colors\<close> returns a text, and applied to that text again it returns the same
  text and an empty change log.
\<close>

theorem known_only_idempotent:
  assumes "map_of COLOR_MAP target = Some tc"
  shows "\<exists>out log. replace_colors html target False = Inr (out, log) \<and>
                   replace_colors out target False = Inr (out, [])"
  using sub_text_idem [OF assms, of False html]
  by (simp add: replace_colors_pure [OF assms])

theorem known_only_idempotent_witness:
  "map_of COLOR_MAP ''LAPC (LA Pierce)'' =
     Some \<lparr>primary = ''#BF2116'', secondary = ''#1F1F1F'', accent = ''#FFFFFF'',
           full_name = ''Los Angeles Pierce College''\<rparr> \<and>
   replace_colors ''a:#ffc72c;b:#123456;c:#bf2116;d:#00593F'' ''LAPC (LA Pierce)'' False =
     Inr (''a:#1F1F1F;b:#123456;c:#bf2116;d:#BF2116'',
          [''Secondary: #ffc72c (LAVC (LA Valley)) -> #1F1F1F'',
           ''Primary: #00593f (LAVC (LA Valley)) -> #BF2116'']) \<and>
   replace_colors ''a:#1F1F1F;b:#123456;c:#bf2116;d:#BF2116'' ''LAPC (LA Pierce)'' False =
     Inr (''a:#1F1F1F;b:#123456;c:#bf2116;d:#BF2116'', [])"
proof -
  let ?tc = "\<lparr>primary = ''#BF2116'', secondary = ''#1F1F1F'', accent = ''#FFFFFF'',
           full_name = ''Los Angeles Pierce College''\<rparr>"
  have reg: "map_of COLOR_MAP ''LAPC (LA Pierce)'' = Some ?tc" by code_simp
  have first: "replace_colors ''a:#ffc72c;b:#123456;c:#bf2116;d:#00593F'' ''LAPC (LA Pierce)'' False =
     Inr (''a:#1F1F1F;b:#123456;c:#bf2116;d:#BF2116'',
          [''Secondary: #ffc72c (LAVC (LA Valley)) -> #1F1F1F'',
           ''Primary: #00593f (LAVC (LA Valley)) -> #BF2116''])"
    by code_simp
  from known_only_idempotent [OF reg, of "''a:#ffc72c;b:#123456;c:#bf2116;d:#00593F''"]
  obtain out log where
    a: "replace_colors ''a:#ffc72c;b:#123456;c:#bf2116;d:#00593F'' ''LAPC (LA Pierce)'' False =
          Inr (out, log)"
    and b: "replace_colors out ''LAPC (LA Pierce)'' False = Inr (out, [])"
    by blast
  from a first have "out = ''a:#1F1F1F;b:#123456;c:#bf2116;d:#BF2116''" by simp
  with b reg first show ?thesis by simp
qed

subsection \<open>The change log and the text\<close>

text \<open>
  Claim C10. For every text, registered target and mode, \<^verbatim>\<open>replace_colors\<close> returns a text
  and a log such that the text differs from the input exactly when the log is not empty,
  and the log has as many records as the input has token occurrences for which
  \<^verbatim>\<open>replace_color\<close> returns something other than the matched token.
\<close>

theorem log_records_the_changes:
  assumes "map_of COLOR_MAP target = Some tc"
  shows "\<exists>out log. replace_colors html target ra = Inr (out, log) \<and>
           (out \<noteq> html) = (log \<noteq> []) \<and>
           length log =
             length (filter (\<lambda>m. fst (replace_color tc target ra m []) \<noteq> m) (findall html))"
  using sub_text_unchanged_iff [OF assms, of ra html] log_count [of tc target ra "findall html"]
  by (simp add: replace_colors_pure [OF assms] repl_text_def)

theorem log_records_the_changes_witness:
  "map_of COLOR_MAP ''LAPC (LA Pierce)'' =
     Some \<lparr>primary = ''#BF2116'', secondary = ''#1F1F1F'', accent = ''#FFFFFF'',
           full_name = ''Los Angeles Pierce College''\<rparr> \<and>
   replace_colors ''a:#ffc72c;b:#123456;c:#bf2116'' ''LAPC (LA Pierce)'' True =
     Inr (''a:#BF2116;b:#BF2116;c:#bf2116'',
          [''Color: #ffc72c -> #BF2116'', ''Color: #123456 -> #BF2116'']) \<and>
   length (filter (\<lambda>m. fst (replace_color
              \<lparr>primary = ''#BF2116'', secondary = ''#1F1F1F'', accent = ''#FFFFFF'',
                full_name = ''Los Angeles Pierce College''\<rparr> ''LAPC (LA Pierce)'' True m []) \<noteq> m)
            (findall ''a:#ffc72c;b:#123456;c:#bf2116'')) = 2"
proof -
  let ?tc = "\<lparr>primary = ''#BF2116'', secondary = ''#1F1F1F'', accent = ''#FFFFFF'',
           full_name = ''Los Angeles Pierce College''\<rparr>"
  let ?html = "''a:#ffc72c;b:#123456;c:#bf2116''"
  have reg: "map_of COLOR_MAP ''LAPC (LA Pierce)'' = Some ?tc" by code_simp
  have run: "replace_colors ?html ''LAPC (LA Pierce)'' True =
     Inr (''a:#BF2116;b:#BF2116;c:#bf2116'',
          [''Color: #ffc72c -> #BF2116'', ''Color: #123456 -> #BF2116''])"
    by code_simp
  from log_records_the_changes [OF reg, of ?html True]
  obtain out log where a: "replace_colors ?html ''LAPC (LA Pierce)'' True = Inr (out, log)"
    and c: "length log =
      length (filter (\<lambda>m. fst (replace_color ?tc ''LAPC (LA Pierce)'' True m []) \<noteq> m)
                (findall ?html))"
    by blast
  from a run have "log = [''Color: #ffc72c -> #BF2116'', ''Color: #123456 -> #BF2116'']"
    by simp
  then have "length log = 2" by simp
  with c have cnt:
    "length (filter (\<lambda>m. fst (replace_color ?tc ''LAPC (LA Pierce)'' True m []) \<noteq> m)
               (findall ?html)) = 2"
    by (simp only:)
  show ?thesis by (rule conjI [OF reg conjI [OF run cnt]])
qed

subsection \<open>Letter case\<close>

text \<open>
  Claim C8 says that every matched token appears in the output in the casing the table
  stores. A token that is one of the target's own colours is returned as it was matched:
  \<^verbatim>\<open>#005A95\<close> stays \<^verbatim>\<open>#005A95\<close> for the target LACCD, whose primary colour is stored as
  \<^verbatim>\<open>#005a95\<close>.
\<close>

theorem stored_casing_counterexample:
  "map_of COLOR_MAP ''LACCD (District)'' =
     Some \<lparr>primary = ''#005a95'', secondary = ''#00345f'', accent = ''#bb9e6d'',
           full_name = ''Los Angeles Community College District''\<rparr> \<and>
   hex_token ''#005A95'' \<and>
   lower ''#005A95'' = lower ''#005a95'' \<and>
   replace_colors ''#005A95'' ''LACCD (District)'' False = Inr (''#005A95'', []) \<and>
   replace_colors ''#005A95'' ''LACCD (District)'' True = Inr (''#005A95'', []) \<and>
   ''#005A95'' \<noteq> ''#005a95''"
  by code_simp

text \<open>
  Claim C8, amended. Two texts that are equal up to letter case get the same change log
  (so the same token occurrences are replaced, with the same roles, source colleges and
  new colours), and their outputs are equal up to letter case. For two tokens that are
  equal up to letter case, one call appends the same records, and either both tokens
  are returned as they were matched, each in its own casing, or both are replaced by the
  same colour of the target, in the casing the table stores.
\<close>

theorem case_insensitive_decisions:
  assumes "map_of COLOR_MAP target = Some tc" and "lower s = lower t" and "lower m = lower n"
  shows "(\<exists>out1 out2 log. replace_colors s target ra = Inr (out1, log) \<and>
            replace_colors t target ra = Inr (out2, log) \<and> lower out1 = lower out2) \<and>
         snd (replace_color tc target ra m changes) = snd (replace_color tc target ra n changes) \<and>
         (fst (replace_color tc target ra m changes) = m \<and>
          fst (replace_color tc target ra n changes) = n \<or>
          fst (replace_color tc target ra m changes) = fst (replace_color tc target ra n changes) \<and>
          fst (replace_color tc target ra m changes) \<in> {primary tc, secondary tc, accent tc})"
  using sub_text_lower [OF assms(2), of tc target ra] repl_log_lower [OF assms(3), of tc target ra]
    repl_text_lower [OF assms(3), of tc target ra]
  by (simp add: replace_colors_pure [OF assms(1)] replace_color_split)

theorem case_insensitive_decisions_witness:
  "map_of COLOR_MAP ''LAPC (LA Pierce)'' =
     Some \<lparr>primary = ''#BF2116'', secondary = ''#1F1F1F'', accent = ''#FFFFFF'',
           full_name = ''Los Angeles Pierce College''\<rparr> \<and>
   lower ''x:#FFC72C'' = lower ''x:#ffc72c'' \<and>
   lower ''#FFC72C'' = lower ''#ffc72c'' \<and>
   replace_colors ''x:#FFC72C'' ''LAPC (LA Pierce)'' False =
     Inr (''x:#1F1F1F'', [''Secondary: #ffc72c (LAVC (LA Valley)) -> #1F1F1F'']) \<and>
   map_sum id snd (replace_colors ''x:#ffc72c'' ''LAPC (LA Pierce)'' False) =
     Inr [''Secondary: #ffc72c (LAVC (LA Valley)) -> #1F1F1F'']"
proof -
  let ?tc = "\<lparr>primary = ''#BF2116'', secondary = ''#1F1F1F'', accent = ''#FFFFFF'',
           full_name = ''Los Angeles Pierce College''\<rparr>"
  have reg: "map_of COLOR_MAP ''LAPC (LA Pierce)'' = Some ?tc" by code_simp
  have st: "lower ''x:#FFC72C'' = lower ''x:#ffc72c''" by code_simp
  have mn: "lower ''#FFC72C'' = lower ''#ffc72c''" by code_simp
  have run: "replace_colors ''x:#FFC72C'' ''LAPC (LA Pierce)'' False =
     Inr (''x:#1F1F1F'', [''Secondary: #ffc72c (LAVC (LA Valley)) -> #1F1F1F''])"
    by code_simp
  from case_insensitive_decisions [OF reg st mn, of False]
  obtain out1 out2 log where
    a: "replace_colors ''x:#FFC72C'' ''LAPC (LA Pierce)'' False = Inr (out1, log)"
    and b: "replace_colors ''x:#ffc72c'' ''LAPC (LA Pierce)'' False = Inr (out2, log)"
    by blast
  from a run have "log = [''Secondary: #ffc72c (LAVC (LA Valley)) -> #1F1F1F'']" by simp
  with b have other:
    "map_sum id snd (replace_colors ''x:#ffc72c'' ''LAPC (LA Pierce)'' False) =
       Inr [''Secondary: #ffc72c (LAVC (LA Valley)) -> #1F1F1F'']"
    by simp
  show ?thesis by (rule conjI [OF reg conjI [OF st conjI [OF mn conjI [OF run other]]]])
qed

end
